theory Spec2Isabelle
  imports Main "HOL-Library.Word" "HOL-Library.Char_ord" "HOL-Library.List_Lexorder"
    "HOL-Library.Multiset"
begin

unbundle bit_operations_syntax

section \<open>The SLADE console (Console.cpp)\<close>

text \<open>
  A shallow embedding of \<^verbatim>\<open>src/Console.cpp\<close>: the command registry, the dispatcher
  \<^verbatim>\<open>Console::execute\<close>, the transcript and the command history. Strings are byte strings
  (\<^typ>\<open>string\<close>). A result of \<open>None\<close> stands for a run the C++ does not define (reading the
  last character of an empty string, indexing an empty vector, an integer text out of
  range) or for a command handler that does not return.
\<close>

subsection \<open>Data\<close>

text \<open>
  A \<^verbatim>\<open>ConsoleCommand\<close> holds its name, the function pointer of its handler and the minimum
  number of arguments. The function pointer is an address (\<^typ>\<open>nat\<close>); the code behind the
  addresses is the handler table the dispatcher is run with. Console.h is not part of the
  sources, the members are the ones the constructor (lines 238-246) initialises;
  \<^verbatim>\<open>min_args\<close> is compared with \<^verbatim>\<open>args.size()\<close>, a count.
\<close>

record ConsoleCommand =
  name :: string
  commandFunc :: nat
  min_args :: nat

text \<open>
  Modelled from the spec: the typed variables of CVar.h, which is not part of the sources. A
  variable has a name, flags and a value of one of four types (\<^verbatim>\<open>CVAR_BOOLEAN\<close>,
  \<^verbatim>\<open>CVAR_INTEGER\<close>, \<^verbatim>\<open>CVAR_FLOAT\<close>, \<^verbatim>\<open>CVAR_STRING\<close>); the type tag is the constructor of the
  value. An integer is a C \<^verbatim>\<open>int\<close> (32 bits, two's complement), a float is what the cast
  \<^verbatim>\<open>(float)\<close> of line 126 yields: an IEEE 754 single, kept as its 32 bits.
\<close>

datatype CVarValue =
  CBoolCVar bool
| CIntCVar "32 word"
| CFloatCVar "32 word"
| CStringCVar string

record CVar =
  cvar_name :: string
  flags :: nat
  val :: CVarValue

text \<open>The type tag of a variable, \<^verbatim>\<open>cvar->type\<close> in the C++.\<close>

datatype cvar_type = CVAR_BOOLEAN | CVAR_INTEGER | CVAR_FLOAT | CVAR_STRING

definition cvar_type :: "CVar \<Rightarrow> cvar_type" where
  "cvar_type cvar =
     (case val cvar of
        CBoolCVar _ \<Rightarrow> CVAR_BOOLEAN
      | CIntCVar _ \<Rightarrow> CVAR_INTEGER
      | CFloatCVar _ \<Rightarrow> CVAR_FLOAT
      | CStringCVar _ \<Rightarrow> CVAR_STRING)"

text \<open>
  The state the console code reads and writes: the members of \<^verbatim>\<open>Console\<close> (\<open>commands\<close>,
  the transcript \<open>log\<close>, the history \<open>cmd_log\<close>), the global variable store (\<open>cvars\<close>), the
  events sent through \<^verbatim>\<open>announce\<close> (\<open>announced\<close>, oldest first) and the lines handed to
  \<^verbatim>\<open>wxLogMessage\<close> (\<open>wx_log\<close>).
\<close>

record console =
  commands :: "ConsoleCommand list"
  log :: "string list"
  cmd_log :: "string list"
  cvars :: "CVar list"
  announced :: "string list"
  wx_log :: "string list"

type_synonym handlers = "nat \<Rightarrow> string list \<Rightarrow> console \<Rightarrow> console option"

type_synonym tokenizer = "string \<Rightarrow> string list"

text \<open>\<^verbatim>\<open>Console::Console\<close> (lines 51-52): every member starts empty.\<close>

definition Console :: "CVar list \<Rightarrow> console" where
  "Console vs = \<lparr>commands = [], log = [], cmd_log = [], cvars = vs, announced = [], wx_log = []\<rparr>"

subsection \<open>Transcript\<close>

text \<open>
  Modelled from the spec: \<^verbatim>\<open>announce\<close> of the Announcer base class, which is not part of the
  sources: it fires a notification, recorded here by its event name.
\<close>

definition announce :: "string \<Rightarrow> console \<Rightarrow> console" where
  "announce event w = w\<lparr>announced := announced w @ [event]\<rparr>"

text \<open>
  \<^verbatim>\<open>Console::logMessage\<close> (lines 159-170). \<^verbatim>\<open>message.Last()\<close> of an empty string is not
  defined.
\<close>

definition logMessage :: "string \<Rightarrow> console \<Rightarrow> console option" where
  "logMessage message w =
     (if message = [] then None
      else
        let message' = (if last message \<noteq> CHR 0x0A then message @ [CHR 0x0A] else message)
        in Some (announce ''console_logmessage'' (w\<lparr>log := log w @ [message']\<rparr>)))"

text \<open>\<^verbatim>\<open>Console::lastLogLine\<close> (lines 175-184).\<close>

definition lastLogLine :: "console \<Rightarrow> string" where
  "lastLogLine w = (if length (log w) > 0 then last (log w) else '''')"

text \<open>\<^verbatim>\<open>Console::lastCommand\<close> (lines 189-198): \<^verbatim>\<open>cmd_log.back()\<close>.\<close>

definition lastCommand :: "console \<Rightarrow> string" where
  "lastCommand w = (if length (cmd_log w) > 0 then last (cmd_log w) else '''')"

text \<open>\<^verbatim>\<open>Console::dumpLog\<close> (lines 204-211).\<close>

definition dumpLog :: "console \<Rightarrow> string" where
  "dumpLog w = foldl (\<lambda>ret line. ret @ line) '''' (log w)"

text \<open>\<^verbatim>\<open>Console::prevCommand\<close> (lines 217-223).\<close>

definition prevCommand :: "console \<Rightarrow> int \<Rightarrow> string" where
  "prevCommand w index =
     (if index < 0 \<or> nat index \<ge> length (cmd_log w) then '''' else cmd_log w ! nat index)"

subsection \<open>Command registry\<close>

text \<open>
  Modelled from the spec: \<^verbatim>\<open>operator<\<close> of \<^verbatim>\<open>ConsoleCommand\<close> (Console.h, which is not part of
  the sources): the names compared byte by byte, which is the order of \<^typ>\<open>string\<close>.
\<close>

definition ConsoleCommand_less :: "ConsoleCommand \<Rightarrow> ConsoleCommand \<Rightarrow> bool" where
  "ConsoleCommand_less a b = (name a < name b)"

text \<open>
  \<^verbatim>\<open>sort(first, last)\<close> of the C++ library, which orders with \<^verbatim>\<open>operator<\<close>. It leaves the
  order of equal elements open; this sort keeps them in their order.
\<close>

fun sort_insert :: "('a \<Rightarrow> 'a \<Rightarrow> bool) \<Rightarrow> 'a \<Rightarrow> 'a list \<Rightarrow> 'a list" where
  "sort_insert lt x [] = [x]"
| "sort_insert lt x (y # ys) = (if lt y x then y # sort_insert lt x ys else x # y # ys)"

fun std_sort :: "('a \<Rightarrow> 'a \<Rightarrow> bool) \<Rightarrow> 'a list \<Rightarrow> 'a list" where
  "std_sort lt [] = []"
| "std_sort lt (x # xs) = sort_insert lt x (std_sort lt xs)"

text \<open>\<^verbatim>\<open>Console::addCommand\<close> (lines 63-69): append, then sort the whole vector.\<close>

definition addCommand :: "ConsoleCommand \<Rightarrow> console \<Rightarrow> console" where
  "addCommand c w = w\<lparr>commands := std_sort ConsoleCommand_less (commands w @ [c])\<rparr>"

text \<open>
  Modelled from the spec: \<^verbatim>\<open>numCommands\<close> (Console.h, which is not part of the sources), the
  number of registered commands.
\<close>

definition numCommands :: "console \<Rightarrow> nat" where
  "numCommands w = length (commands w)"

text \<open>
  \<^verbatim>\<open>Console::command\<close> (lines 228-233). \<^verbatim>\<open>commands[0]\<close> of an empty vector is not defined.
\<close>

definition command :: "console \<Rightarrow> nat \<Rightarrow> ConsoleCommand option" where
  "command w index =
     (if index < length (commands w) then Some (commands w ! index)
      else (case commands w of [] \<Rightarrow> None | c # _ \<Rightarrow> Some c))"

text \<open>\<^verbatim>\<open>ConsoleCommand::execute\<close> (lines 251-257).\<close>

definition ConsoleCommand_execute ::
  "handlers \<Rightarrow> ConsoleCommand \<Rightarrow> string list \<Rightarrow> console \<Rightarrow> console option" where
  "ConsoleCommand_execute H c args w =
     (if length args \<ge> min_args c then H (commandFunc c) args w
      else logMessage ''Missing command arguments'' w)"

text \<open>
  The \<^verbatim>\<open>ConsoleCommand\<close> constructor (lines 238-246) fills the members and registers the
  command with the console.
\<close>

definition new_ConsoleCommand :: "string \<Rightarrow> nat \<Rightarrow> nat \<Rightarrow> console \<Rightarrow> console" where
  "new_ConsoleCommand n f m w = addCommand \<lparr>name = n, commandFunc = f, min_args = m\<rparr> w"

text \<open>A sequence of registrations, first to last.\<close>

fun register_all :: "ConsoleCommand list \<Rightarrow> console \<Rightarrow> console" where
  "register_all [] w = w"
| "register_all (c # cs) w = register_all cs (addCommand c w)"

subsection \<open>Text conversions of the C library\<close>

text \<open>
  \<^verbatim>\<open>isspace\<close> and \<^verbatim>\<open>isdigit\<close> in the C locale.
\<close>

definition isspace :: "char \<Rightarrow> bool" where
  "isspace c = (c = CHR '' '' \<or> (CHR 0x09 \<le> c \<and> c \<le> CHR 0x0D))"

definition isdigit :: "char \<Rightarrow> bool" where
  "isdigit c = (CHR ''0'' \<le> c \<and> c \<le> CHR ''9'')"

definition digit_char :: "nat \<Rightarrow> char" where
  "digit_char d = char_of (48 + d)"

definition digit_val :: "char \<Rightarrow> nat" where
  "digit_val c = of_char c - 48"

text \<open>The decimal digits of a number, no leading zeros.\<close>

fun dec :: "nat \<Rightarrow> string" where
  "dec n = (if n < 10 then [digit_char n] else dec (n div 10) @ [digit_char (n mod 10)])"

declare dec.simps [simp del]

definition digits_val :: "string \<Rightarrow> nat" where
  "digits_val ds = foldl (\<lambda>acc c. 10 * acc + digit_val c) 0 ds"

text \<open>\<^verbatim>\<open>"%d"\<close> of a C \<^verbatim>\<open>int\<close> (line 140).\<close>

definition format_d :: "32 word \<Rightarrow> string" where
  "format_d i = (if sint i < 0 then CHR ''-'' # dec (nat (- sint i)) else dec (nat (sint i)))"

definition read_sign :: "string \<Rightarrow> bool \<times> string" where
  "read_sign s =
     (case s of [] \<Rightarrow> (False, [])
      | c # r \<Rightarrow> if c = CHR ''-'' then (True, r) else if c = CHR ''+'' then (False, r) else (False, s))"

text \<open>
  The number \<^verbatim>\<open>strtol(s, NULL, 10)\<close> reads: white space, an optional sign, then the longest
  run of digits; 0 when there is no digit.
\<close>

definition strtol_value :: "string \<Rightarrow> int" where
  "strtol_value s =
     (let (neg, s') = read_sign (dropWhile isspace s);
          v = int (digits_val (takeWhile isdigit s'))
      in if neg then - v else v)"

text \<open>
  \<^verbatim>\<open>atoi\<close> (line 124). The C standard leaves the result open when the number does not fit
  an \<^verbatim>\<open>int\<close>.
\<close>

definition atoi :: "string \<Rightarrow> 32 word option" where
  "atoi s =
     (let v = strtol_value s
      in if - (2 ^ 31) \<le> v \<and> v < 2 ^ 31 then Some (word_of_int v) else None)"

text \<open>
  An IEEE 754 single as its 32 bits: sign, biased exponent, fraction. A finite one has the
  value \<open>m * 2 ^ e\<close> with \<open>m = 2 ^ 23 + fraction\<close> and \<open>e = exponent - 150\<close>, or
  \<open>m = fraction\<close> and \<open>e = - 149\<close> when the exponent field is 0.
\<close>

definition float_sign :: "32 word \<Rightarrow> bool" where
  "float_sign w = bit w 31"

definition float_expo :: "32 word \<Rightarrow> nat" where
  "float_expo w = unat (drop_bit 23 w AND 0xFF)"

definition float_frac :: "32 word \<Rightarrow> nat" where
  "float_frac w = unat (w AND 0x7FFFFF)"

definition float_bits :: "bool \<Rightarrow> nat \<Rightarrow> nat \<Rightarrow> 32 word" where
  "float_bits neg expo frac =
     (if neg then 0x80000000 else 0) OR push_bit 23 (word_of_nat expo) OR word_of_nat frac"

text \<open>\<open>a / b\<close> rounded to the nearest integer, a tie to the even one.\<close>

definition rne_div :: "nat \<Rightarrow> nat \<Rightarrow> nat" where
  "rne_div a b =
     (let q = a div b; r = a mod b
      in if 2 * r < b then q else if 2 * r > b then q + 1 else if even q then q else q + 1)"

text \<open>\<open>a / (b * 2 ^ e)\<close> rounded in the same way, for an exponent of either sign.\<close>

definition scale_round :: "nat \<Rightarrow> nat \<Rightarrow> int \<Rightarrow> nat" where
  "scale_round a b e =
     (if e \<ge> 0 then rne_div a (b * 2 ^ nat e) else rne_div (a * 2 ^ nat (- e)) b)"

definition pad4 :: "nat \<Rightarrow> string" where
  "pad4 k = replicate (4 - length (dec k)) CHR ''0'' @ dec k"

text \<open>
  \<^verbatim>\<open>"%1.4f"\<close> (line 142), as glibc prints it: the exact value rounded to four decimals
  (a tie to even), the sign also for a negative zero, \<^verbatim>\<open>inf\<close> and \<^verbatim>\<open>nan\<close> in
  lower case.
\<close>

definition format_f4 :: "32 word \<Rightarrow> string" where
  "format_f4 w =
     (let sgn = (if float_sign w then ''-'' else [])
      in if float_expo w = 255 then sgn @ (if float_frac w = 0 then ''inf'' else ''nan'')
         else
           let m = (if float_expo w = 0 then float_frac w else 2 ^ 23 + float_frac w);
               e = (if float_expo w = 0 then - 149 else int (float_expo w) - 150);
               n = scale_round (m * 10000) 1 (- e)
           in sgn @ dec (n div 10000) @ ''.'' @ pad4 (n mod 10000))"

text \<open>
  \<^verbatim>\<open>strtod\<close> reads white space, an optional sign and then the longest text that is
  \<^verbatim>\<open>inf\<close>, \<^verbatim>\<open>nan\<close> (in either case of the letters), a hexadecimal number after \<^verbatim>\<open>0x\<close> or
  a decimal number, each number with an optional fraction and an optional exponent, the
  decimal point being that of the C locale. The result of reading is the sign and the
  exact value as a fraction.
\<close>

datatype parsed = P_none | P_inf bool | P_nan bool | P_num bool nat nat

definition tolower :: "char \<Rightarrow> char" where
  "tolower c = (if CHR ''A'' \<le> c \<and> c \<le> CHR ''Z'' then char_of (of_char c + (32::nat)) else c)"

definition starts_ci :: "string \<Rightarrow> string \<Rightarrow> bool" where
  "starts_ci p s = (map tolower (take (length p) s) = p)"

definition isxdigit :: "char \<Rightarrow> bool" where
  "isxdigit c = (isdigit c \<or> (CHR ''a'' \<le> tolower c \<and> tolower c \<le> CHR ''f''))"

definition xdigit_val :: "char \<Rightarrow> nat" where
  "xdigit_val c = (if isdigit c then digit_val c else of_char (tolower c) - 87)"

definition xdigits_val :: "string \<Rightarrow> nat" where
  "xdigits_val ds = foldl (\<lambda>acc c. 16 * acc + xdigit_val c) 0 ds"

text \<open>An exponent counts only when a digit follows its mark and sign.\<close>

definition read_exponent :: "char \<Rightarrow> string \<Rightarrow> int" where
  "read_exponent mark s =
     (case s of [] \<Rightarrow> 0
      | c # t \<Rightarrow>
          if tolower c = mark then
            (let (neg, t') = read_sign t; ds = takeWhile isdigit t'
             in if ds = [] then 0 else if neg then - int (digits_val ds) else int (digits_val ds))
          else 0)"

text \<open>The digits before the point, the digits after it, and the rest of the text.\<close>

definition read_fraction :: "(char \<Rightarrow> bool) \<Rightarrow> string \<Rightarrow> string \<times> string \<times> string" where
  "read_fraction isd s =
     (let ip = takeWhile isd s; r = dropWhile isd s
      in case r of [] \<Rightarrow> (ip, [], [])
         | c # t \<Rightarrow> if c = CHR ''.'' then (ip, takeWhile isd t, dropWhile isd t) else (ip, [], r))"

text \<open>\<open>v * base ^ e\<close> as a fraction.\<close>

definition scaled :: "nat \<Rightarrow> nat \<Rightarrow> int \<Rightarrow> nat \<times> nat" where
  "scaled v base e = (if e \<ge> 0 then (v * base ^ nat e, 1) else (v, base ^ nat (- e)))"

definition read_decimal :: "bool \<Rightarrow> string \<Rightarrow> parsed" where
  "read_decimal neg s =
     (let (ip, fp, r) = read_fraction isdigit s
      in if ip @ fp = [] then P_none
         else
           let (a, b) = scaled (digits_val (ip @ fp)) 10 (read_exponent CHR ''e'' r - int (length fp))
           in P_num neg a b)"

definition read_hex :: "bool \<Rightarrow> string \<Rightarrow> parsed" where
  "read_hex neg s =
     (let (ip, fp, r) = read_fraction isxdigit s
      in if ip @ fp = [] then P_none
         else
           let (a, b) = scaled (xdigits_val (ip @ fp)) 2 (read_exponent CHR ''p'' r - 4 * int (length fp))
           in P_num neg a b)"

definition strtod_parse :: "string \<Rightarrow> parsed" where
  "strtod_parse s =
     (let (neg, t) = read_sign (dropWhile isspace s)
      in if starts_ci ''inf'' t then P_inf neg
         else if starts_ci ''nan'' t then P_nan neg
         else if starts_ci ''0x'' t \<and> read_hex neg (drop 2 t) \<noteq> P_none then read_hex neg (drop 2 t)
         else read_decimal neg t)"

text \<open>The number of binary digits of \<open>n\<close>.\<close>

fun bitlen :: "nat \<Rightarrow> nat" where
  "bitlen n = (if n = 0 then 0 else Suc (bitlen (n div 2)))"

declare bitlen.simps [simp del]

text \<open>The largest \<open>k\<close> with \<open>2 ^ k \<le> a / b\<close>, for positive \<open>a\<close> and \<open>b\<close>.\<close>

definition floor_log2 :: "nat \<Rightarrow> nat \<Rightarrow> int" where
  "floor_log2 a b =
     (let k = int (bitlen a) - int (bitlen b)
      in if (if k \<ge> 0 then a \<ge> b * 2 ^ nat k else a * 2 ^ nat (- k) \<ge> b) then k else k - 1)"

text \<open>
  \<open>a / b\<close> rounded to a binary floating-point number \<open>m * 2 ^ e\<close> of \<open>p\<close> digits whose
  exponent is at least \<open>emin\<close> (to nearest, a tie to even).
\<close>

definition round_binary :: "nat \<Rightarrow> int \<Rightarrow> nat \<Rightarrow> nat \<Rightarrow> nat \<times> int" where
  "round_binary p emin a b =
     (if a = 0 then (0, emin)
      else let e = max emin (floor_log2 a b - (int p - 1)) in (scale_round a b e, e))"

text \<open>To a double (53 digits), as \<^verbatim>\<open>strtod\<close> rounds; \<open>None\<close> is an overflow.\<close>

definition to_double :: "nat \<Rightarrow> nat \<Rightarrow> (nat \<times> int) option" where
  "to_double a b =
     (let (m, e) = round_binary 53 (- 1074) a b
      in if e < 0 then Some (m, e)
         else if m * 2 ^ nat e \<ge> 2 ^ 1024 then None else Some (m, e))"

text \<open>The cast of the double \<open>m * 2 ^ e\<close> to a single (24 digits); \<open>None\<close> is an overflow.\<close>

definition to_float :: "nat \<Rightarrow> int \<Rightarrow> (nat \<times> int) option" where
  "to_float m e =
     (if m = 0 then Some (0, - 149)
      else
        let (a, b) = scaled m 2 e; (m', e') = round_binary 24 (- 149) a b
        in if e' < 0 then Some (m', e')
           else if m' * 2 ^ nat e' \<ge> 2 ^ 128 then None else Some (m', e'))"

text \<open>The bits of the single \<open>m * 2 ^ e\<close>, \<open>m \<le> 2 ^ 24\<close>: subnormal below \<open>2 ^ 23\<close>.\<close>

definition encode_float :: "bool \<Rightarrow> nat \<Rightarrow> int \<Rightarrow> 32 word" where
  "encode_float neg m e =
     (if m < 2 ^ 23 then float_bits neg 0 m
      else if m = 2 ^ 24 then float_bits neg (nat (e + 151)) 0
      else float_bits neg (nat (e + 150)) (m - 2 ^ 23))"

text \<open>
  \<^verbatim>\<open>(float)atof(s)\<close> (line 126), with IEEE 754 arithmetic and as glibc reads: 0 when the
  text holds no number, an infinity on overflow.
\<close>

definition atof_float :: "string \<Rightarrow> 32 word" where
  "atof_float s =
     (case strtod_parse s of
        P_none \<Rightarrow> 0
      | P_inf neg \<Rightarrow> float_bits neg 255 0
      | P_nan neg \<Rightarrow> float_bits neg 255 (2 ^ 22)
      | P_num neg a b \<Rightarrow>
          (case to_double a b of
             None \<Rightarrow> float_bits neg 255 0
           | Some (m, e) \<Rightarrow>
               (case to_float m e of
                  None \<Rightarrow> float_bits neg 255 0
                | Some (m', e') \<Rightarrow> encode_float neg m' e')))"

subsection \<open>Variable store\<close>

text \<open>
  Modelled from the spec: \<^verbatim>\<open>get_cvar\<close> (CVar.cpp, which is not part of the sources), the lookup
  of a variable by its name. The result is the place of the variable in the store (the
  pointer the C++ returns), \<open>None\<close> for \<^verbatim>\<open>NULL\<close>.
\<close>

fun get_cvar :: "string \<Rightarrow> CVar list \<Rightarrow> nat option" where
  "get_cvar n [] = None"
| "get_cvar n (v # vs) = (if cvar_name v = n then Some 0 else map_option Suc (get_cvar n vs))"

text \<open>
  The assignment of \<^verbatim>\<open>Console::execute\<close> (lines 117-128), the spec's \<^verbatim>\<open>setFromString\<close>: the
  text is converted according to the type of the variable.
\<close>

definition setFromString :: "CVar \<Rightarrow> string \<Rightarrow> CVar option" where
  "setFromString cvar arg =
     (case val cvar of
        CBoolCVar _ \<Rightarrow>
          (if arg = ''0'' \<or> arg = ''false'' then Some (cvar\<lparr>val := CBoolCVar False\<rparr>)
           else Some (cvar\<lparr>val := CBoolCVar True\<rparr>))
      | CIntCVar _ \<Rightarrow>
          (case atoi arg of None \<Rightarrow> None | Some i \<Rightarrow> Some (cvar\<lparr>val := CIntCVar i\<rparr>))
      | CFloatCVar _ \<Rightarrow> Some (cvar\<lparr>val := CFloatCVar (atof_float arg)\<rparr>)
      | CStringCVar _ \<Rightarrow> Some (cvar\<lparr>val := CStringCVar arg\<rparr>))"

text \<open>
  The text of the value in \<^verbatim>\<open>Console::execute\<close> (lines 132-144), the spec's
  \<^verbatim>\<open>formatToString\<close>.
\<close>

definition formatToString :: "CVar \<Rightarrow> string" where
  "formatToString cvar =
     (case val cvar of
        CBoolCVar b \<Rightarrow> (if b then ''true'' else ''false'')
      | CIntCVar i \<Rightarrow> format_d i
      | CFloatCVar f \<Rightarrow> format_f4 f
      | CStringCVar s \<Rightarrow> s)"

subsection \<open>The text of a value in the words of the spec\<close>

text \<open>
  The spec's words for the text of a value (4.1, \<^verbatim>\<open>formatToString\<close>), to compare the code
  with: a Boolean is \<^verbatim>\<open>true\<close> or \<^verbatim>\<open>false\<close>; an Integer is decimal, signed, without leading
  zeros; a Float has a fixed representation with four decimal places; a String is its raw
  value.

  \<open>decimal_numeral t n\<close>: the text \<open>t\<close> is the number \<open>n\<close> in decimal digits, without a
  leading zero.
\<close>

definition decimal_numeral :: "string \<Rightarrow> nat \<Rightarrow> bool" where
  "decimal_numeral t n \<longleftrightarrow>
     t \<noteq> [] \<and> list_all isdigit t \<and> (length t = 1 \<or> hd t \<noteq> CHR ''0'') \<and> digits_val t = n"

text \<open>\<open>signed_decimal t z\<close>: the same for an integer, with a minus sign when negative.\<close>

definition signed_decimal :: "string \<Rightarrow> int \<Rightarrow> bool" where
  "signed_decimal t z =
     (if z < 0 then t \<noteq> [] \<and> hd t = CHR ''-'' \<and> decimal_numeral (tl t) (nat (- z))
      else decimal_numeral t (nat z))"

text \<open>
  \<open>fixed4_numeral t N\<close>: the text \<open>t\<close> is the number \<open>N / 10000\<close> written with a decimal
  point and exactly four decimals.
\<close>

definition fixed4_numeral :: "string \<Rightarrow> nat \<Rightarrow> bool" where
  "fixed4_numeral t N \<longleftrightarrow>
     (\<exists>ip fp. t = ip @ ''.'' @ fp \<and> decimal_numeral ip (N div 10000)
        \<and> length fp = 4 \<and> list_all isdigit fp \<and> digits_val fp = N mod 10000)"

text \<open>\<open>nearest_scaled N m e\<close>: \<open>N\<close> is an integer nearest to \<open>m * 2 ^ e * 10000\<close>.\<close>

definition nearest_scaled :: "nat \<Rightarrow> nat \<Rightarrow> int \<Rightarrow> bool" where
  "nearest_scaled N m e =
     (if e \<ge> 0 then N = m * 10000 * 2 ^ nat e
      else 2 * \<bar>int N * 2 ^ nat (- e) - int (m * 10000)\<bar> \<le> 2 ^ nat (- e))"

text \<open>
  \<open>fixed4_text t f\<close>: the text \<open>t\<close> is the float \<open>f\<close> with four decimals: its sign, then
  the magnitude rounded to a nearest multiple of \<open>1 / 10000\<close>; an infinity and a NaN are
  \<^verbatim>\<open>inf\<close> and \<^verbatim>\<open>nan\<close>.
\<close>

definition fixed4_text :: "string \<Rightarrow> 32 word \<Rightarrow> bool" where
  "fixed4_text t f =
     (let sgn = (if float_sign f then ''-'' else [])
      in if float_expo f = 255 then t = sgn @ (if float_frac f = 0 then ''inf'' else ''nan'')
         else
           (\<exists>N body. t = sgn @ body \<and> fixed4_numeral body N
              \<and> nearest_scaled N
                   (if float_expo f = 0 then float_frac f else 2 ^ 23 + float_frac f)
                   (if float_expo f = 0 then - 149 else int (float_expo f) - 150)))"

subsection \<open>Dispatch\<close>

text \<open>
  The Tokenizer (Tokenizer.cpp) is not part of the sources: the dispatcher is run with a
  function that gives the tokens of a line in their order. \<^verbatim>\<open>getToken\<close> hands out the next
  one, and the empty string once there is none left.
\<close>

fun getToken :: "string list \<Rightarrow> string \<times> string list" where
  "getToken [] = ('''', [])"
| "getToken (t # ts) = (t, ts)"

text \<open>The loop of lines 96-101: the tokens up to the first empty one are the arguments.\<close>

fun get_args :: "string list \<Rightarrow> string list" where
  "get_args [] = []"
| "get_args (arg # ts) = (if arg \<noteq> '''' then arg # get_args ts else [])"

text \<open>The loop of lines 104-110: the first command of that name.\<close>

fun find_command :: "string \<Rightarrow> ConsoleCommand list \<Rightarrow> ConsoleCommand option" where
  "find_command cmd_name [] = None"
| "find_command cmd_name (c # cs) =
     (if name c = cmd_name then Some c else find_command cmd_name cs)"

text \<open>The line \<^verbatim>\<open>"<name>" = "<value>"\<close> of line 146 and the report of line 152.\<close>

definition cvar_line :: "string \<Rightarrow> string \<Rightarrow> string" where
  \<open>cvar_line cmd_name value = ''"'' @ cmd_name @ ''" = "'' @ value @ ''"''\<close>

definition unknown_line :: "string \<Rightarrow> string" where
  \<open>unknown_line cmd_name = ''Unknown command: "'' @ cmd_name @ ''"''\<close>

text \<open>\<^verbatim>\<open>Console::execute\<close> (lines 74-154).\<close>

definition execute :: "tokenizer \<Rightarrow> handlers \<Rightarrow> string \<Rightarrow> console \<Rightarrow> console option" where
  "execute tz H cmdline w0 =
     (let w1 = w0\<lparr>wx_log := wx_log w0 @ [''> '' @ cmdline]\<rparr>
      in if length cmdline = 0 then Some w1
         else
           let w2 = announce ''console_execute'' (w1\<lparr>cmd_log := cmdline # cmd_log w1\<rparr>);
               (cmd_name, ts) = getToken (tz cmdline);
               args = get_args ts
           in case find_command cmd_name (commands w2) of
                Some c \<Rightarrow> ConsoleCommand_execute H c args w2
              | None \<Rightarrow>
                  (case get_cvar cmd_name (cvars w2) of
                     Some p \<Rightarrow>
                       (case (if length args > 0 then setFromString (cvars w2 ! p) (args ! 0)
                              else Some (cvars w2 ! p)) of
                          None \<Rightarrow> None
                        | Some cvar \<Rightarrow>
                            logMessage (cvar_line cmd_name (formatToString cvar))
                              (w2\<lparr>cvars := (cvars w2)[p := cvar]\<rparr>))
                   | None \<Rightarrow> logMessage (unknown_line cmd_name) w2))"

subsection \<open>The commands of Console.cpp\<close>

text \<open>
  The handler of \<^verbatim>\<open>echo\<close> (lines 268-270). \<^verbatim>\<open>args[0]\<close> of an empty vector is not
  defined.
\<close>

definition c_echo :: "string list \<Rightarrow> console \<Rightarrow> console option" where
  "c_echo args w = (case args of [] \<Rightarrow> None | a # _ \<Rightarrow> logMessage a w)"

text \<open>The handler of \<^verbatim>\<open>cmdlist\<close> (lines 275-280); its loop runs over the indices.\<close>

fun cmdlist_loop :: "nat list \<Rightarrow> console \<Rightarrow> console option" where
  "cmdlist_loop [] w = Some w"
| "cmdlist_loop (a # as) w =
     (case command w a of
        None \<Rightarrow> None
      | Some c \<Rightarrow>
          (case logMessage ([CHR 0x22] @ name c @ [CHR 0x22]) w of
             None \<Rightarrow> None
           | Some w' \<Rightarrow> cmdlist_loop as w'))"

definition c_cmdlist :: "string list \<Rightarrow> console \<Rightarrow> console option" where
  "c_cmdlist args w =
     (case logMessage (format_d (word_of_nat (numCommands w)) @ '' Valid Commands:'') w of
        None \<Rightarrow> None
      | Some w' \<Rightarrow> cmdlist_loop [0..<numCommands w'] w')"

text \<open>
  A handler table: \<^verbatim>\<open>c_echo\<close> at address 1, \<^verbatim>\<open>c_cmdlist\<close> at address 2, no function at any
  other address.
\<close>

definition console_handlers :: handlers where
  "console_handlers f = (if f = 1 then c_echo else if f = 2 then c_cmdlist else (\<lambda>args w. None))"

text \<open>
  Modelled from the spec: a tokenizer (Tokenizer.cpp is not part of the sources) that
  splits a line at white space.
\<close>

fun split_ws :: "string \<Rightarrow> string \<Rightarrow> string list" where
  "split_ws cur [] = (if cur = [] then [] else [cur])"
| "split_ws cur (c # cs) =
     (if isspace c then (if cur = [] then split_ws [] cs else cur # split_ws [] cs)
      else split_ws (cur @ [c]) cs)"

definition tokenize :: tokenizer where
  "tokenize line = split_ws [] line"

text \<open>
  A console for examples: \<^verbatim>\<open>echo\<close> and \<^verbatim>\<open>cmdlist\<close> registered in the order of the source
  file, a variable of each of the four types in the store and a fifth that has the name
  of a command.
\<close>

definition example_cvars :: "CVar list" where
  "example_cvars =
     [\<lparr>cvar_name = ''v'', flags = 0, val = CBoolCVar False\<rparr>,
      \<lparr>cvar_name = ''n'', flags = 0, val = CIntCVar 3\<rparr>,
      \<lparr>cvar_name = ''x'', flags = 0, val = CFloatCVar 0x3F800000\<rparr>,
      \<lparr>cvar_name = ''s'', flags = 0, val = CStringCVar ''abc''\<rparr>,
      \<lparr>cvar_name = ''echo'', flags = 0, val = CStringCVar ''shadowed''\<rparr>]"

definition example_console :: console where
  "example_console =
     new_ConsoleCommand ''cmdlist'' 2 0 (new_ConsoleCommand ''echo'' 1 1 (Console example_cvars))"

section \<open>Properties\<close>

subsection \<open>Auxiliary facts about the dispatcher\<close>

lemma logMessage_line:
  assumes "message \<noteq> []" and "last message \<noteq> CHR 0x0A"
  shows "logMessage message w =
    Some (w\<lparr>log := log w @ [message @ [CHR 0x0A]],
            announced := announced w @ [''console_logmessage'']\<rparr>)"
  using assms by (simp add: logMessage_def announce_def)

lemma cvar_line_last: "cvar_line n v \<noteq> [] \<and> last (cvar_line n v) \<noteq> CHR 0x0A"
  by (simp add: cvar_line_def)

lemma unknown_line_last: "unknown_line n \<noteq> [] \<and> last (unknown_line n) \<noteq> CHR 0x0A"
  by (simp add: unknown_line_def)

lemma find_command_None: "find_command n cs = None \<longleftrightarrow> (\<forall>c\<in>set cs. name c \<noteq> n)"
  by (induction cs) auto


lemma get_cvar_None: "get_cvar n vs = None \<longleftrightarrow> (\<forall>v\<in>set vs. cvar_name v \<noteq> n)"
  by (induction vs) auto

lemma get_cvar_Some:
  "get_cvar n vs = Some p \<Longrightarrow> p < length vs \<and> cvar_name (vs ! p) = n"
  by (induction vs arbitrary: p) (auto split: if_splits)

lemma execute_nonempty:
  assumes "cmdline \<noteq> []" and "getToken (tz cmdline) = (cmd_name, ts)"
  shows "execute tz H cmdline w =
    (let w2 = w\<lparr>wx_log := wx_log w @ [''> '' @ cmdline], cmd_log := cmdline # cmd_log w,
                  announced := announced w @ [''console_execute'']\<rparr>;
         args = get_args ts
     in case find_command cmd_name (commands w) of
          Some c \<Rightarrow> ConsoleCommand_execute H c args w2
        | None \<Rightarrow>
            (case get_cvar cmd_name (cvars w) of
               Some p \<Rightarrow>
                 (case (if args = [] then Some (cvars w ! p)
                        else setFromString (cvars w ! p) (hd args)) of
                    None \<Rightarrow> None
                  | Some cvar \<Rightarrow>
                      logMessage (cvar_line cmd_name (formatToString cvar))
                        (w2\<lparr>cvars := (cvars w)[p := cvar]\<rparr>))
             | None \<Rightarrow> logMessage (unknown_line cmd_name) w2))"
  using assms
  by (cases "get_args ts") (simp_all add: execute_def announce_def Let_def cong: option.case_cong)



lemma logMessage_cvar_line:
  \<open>logMessage (cvar_line n v) w =
    Some (w\<lparr>log := log w @ [''"'' @ n @ ''" = "'' @ v @ ''"'' @ [CHR 0x0A]],
            announced := announced w @ [''console_logmessage'']\<rparr>)\<close>
  by (simp add: logMessage_def announce_def cvar_line_def)

lemma logMessage_unknown_line:
  \<open>logMessage (unknown_line n) w =
    Some (w\<lparr>log := log w @ [''Unknown command: "'' @ n @ ''"'' @ [CHR 0x0A]],
            announced := announced w @ [''console_logmessage'']\<rparr>)\<close>
  by (simp add: logMessage_def announce_def unknown_line_def)

lemma execute_variable_path:
  assumes "cmdline \<noteq> []" and "getToken (tz cmdline) = (cmd_name, ts)"
    and "find_command cmd_name (commands w) = None"
    and "get_cvar cmd_name (cvars w) = Some p"
    and "(if get_args ts = [] then Some (cvars w ! p)
          else setFromString (cvars w ! p) (hd (get_args ts))) = r"
  shows \<open>execute tz H cmdline w =
      (case r of
         None \<Rightarrow> None
       | Some cvar \<Rightarrow>
           Some (w\<lparr>wx_log := wx_log w @ [''> '' @ cmdline],
                   cmd_log := cmdline # cmd_log w,
                   announced := announced w @ [''console_execute'', ''console_logmessage''],
                   cvars := (cvars w)[p := cvar],
                   log := log w @
                     [''"'' @ cmd_name @ ''" = "'' @ formatToString cvar @ ''"''
                        @ [CHR 0x0A]]\<rparr>))\<close>
proof (cases r)
  case None
  with assms(3,4,5) show ?thesis
    by (simp add: execute_nonempty [where tz = tz, OF assms(1,2)])
next
  case (Some cvar)
  with assms(3,4,5) show ?thesis
    by (simp add: execute_nonempty [where tz = tz, OF assms(1,2)] logMessage_cvar_line)
qed

lemma execute_unknown_path:
  assumes "cmdline \<noteq> []" and "getToken (tz cmdline) = (cmd_name, ts)"
    and "find_command cmd_name (commands w) = None"
    and "get_cvar cmd_name (cvars w) = None"
  shows \<open>execute tz H cmdline w =
      Some (w\<lparr>wx_log := wx_log w @ [''> '' @ cmdline],
              cmd_log := cmdline # cmd_log w,
              announced := announced w @ [''console_execute'', ''console_logmessage''],
              log := log w @ [''Unknown command: "'' @ cmd_name @ ''"'' @ [CHR 0x0A]]\<rparr>)\<close>
  using assms(3,4)
  by (simp add: execute_nonempty [where tz = tz, OF assms(1,2)] logMessage_unknown_line)

lemma get_cvar_update:
  assumes "get_cvar n vs = Some p" and "cvar_name v' = n"
  shows "get_cvar n (vs[p := v']) = Some p"
  using assms
proof (induction vs arbitrary: p)
  case Nil
  then show ?case by simp
next
  case (Cons v vs)
  show ?case
  proof (cases "cvar_name v = n")
    case True
    with Cons.prems show ?thesis by auto
  next
    case False
    with Cons.prems obtain q where q: "get_cvar n vs = Some q" and p: "p = Suc q"
      by auto
    from Cons.IH [OF q Cons.prems(2)] have "get_cvar n (vs[q := v']) = Some q" .
    with False p show ?thesis by simp
  qed
qed

subsection \<open>Auxiliary facts about the sort\<close>

lemma set_sort_insert: "set (sort_insert lt x xs) = insert x (set xs)"
  by (induction xs) auto

lemma set_std_sort: "set (std_sort lt xs) = set xs"
  by (induction xs) (auto simp: set_sort_insert)

lemma length_sort_insert: "length (sort_insert lt x xs) = Suc (length xs)"
  by (induction xs) auto

lemma length_std_sort: "length (std_sort lt xs) = length xs"
  by (induction xs) (auto simp: length_sort_insert)

lemma sorted_sort_insert:
  "sorted (map name xs) \<Longrightarrow> sorted (map name (sort_insert ConsoleCommand_less x xs))"
  by (induction xs) (auto simp: ConsoleCommand_less_def set_sort_insert)

lemma sorted_std_sort: "sorted (map name (std_sort ConsoleCommand_less xs))"
  by (induction xs) (auto simp: sorted_sort_insert)

lemma sorted_addCommand: "sorted (map name (commands (addCommand c w)))"
  by (simp add: addCommand_def sorted_std_sort)

lemma set_addCommand: "set (commands (addCommand c w)) = insert c (set (commands w))"
  by (simp add: addCommand_def set_std_sort)

lemma length_addCommand: "length (commands (addCommand c w)) = Suc (length (commands w))"
  by (simp add: addCommand_def length_std_sort)

lemma sorted_register_all:
  "sorted (map name (commands w)) \<Longrightarrow> sorted (map name (commands (register_all cs w)))"
  by (induction cs arbitrary: w) (auto simp: sorted_addCommand)

lemma set_register_all: "set (commands (register_all cs w)) = set (commands w) \<union> set cs"
  by (induction cs arbitrary: w) (auto simp: set_addCommand)

lemma length_register_all:
  "length (commands (register_all cs w)) = length (commands w) + length cs"
  by (induction cs arbitrary: w) (auto simp: length_addCommand)

lemma sorted_registry: "sorted (map name (commands (register_all cs (Console vs))))"
  by (rule sorted_register_all) (simp add: Console_def)

lemma mset_sort_insert: "mset (sort_insert lt x xs) = add_mset x (mset xs)"
  by (induction xs) auto

lemma mset_std_sort: "mset (std_sort lt xs) = mset xs"
  by (induction xs) (auto simp: mset_sort_insert)

subsection \<open>Auxiliary facts about the text of integers\<close>

lemma of_char_digit_char: "d < 10 \<Longrightarrow> of_char (digit_char d) = 48 + d"
  by (simp add: digit_char_def)

lemma isdigit_iff: "isdigit c \<longleftrightarrow> 48 \<le> (of_char c :: nat) \<and> (of_char c :: nat) \<le> 57"
  by (simp add: isdigit_def less_eq_char_def)

lemma isspace_iff:
  "isspace c \<longleftrightarrow> (of_char c :: nat) = 32 \<or> (9 \<le> (of_char c :: nat) \<and> (of_char c :: nat) \<le> 13)"
proof -
  have "c = CHR '' '' \<longleftrightarrow> (of_char c :: nat) = of_char (CHR '' '')"
    by (metis of_char_eq_iff)
  then show ?thesis by (simp add: isspace_def less_eq_char_def)
qed

lemma digit_char_props:
  assumes "d < 10"
  shows "isdigit (digit_char d)" and "digit_val (digit_char d) = d"
    and "\<not> isspace (digit_char d)"
    and "digit_char d \<noteq> CHR ''-''" and "digit_char d \<noteq> CHR ''+''"
proof -
  have oc: "(of_char (digit_char d) :: nat) = 48 + d"
    using assms by (rule of_char_digit_char)
  show "isdigit (digit_char d)" using assms by (simp add: isdigit_iff oc)
  show "digit_val (digit_char d) = d" by (simp add: digit_val_def oc)
  show "\<not> isspace (digit_char d)" using assms by (simp add: isspace_iff oc)
  show "digit_char d \<noteq> CHR ''-''"
  proof
    assume "digit_char d = CHR ''-''"
    then have "(of_char (digit_char d) :: nat) = of_char (CHR ''-'')" by simp
    with oc show False by simp
  qed
  show "digit_char d \<noteq> CHR ''+''"
  proof
    assume "digit_char d = CHR ''+''"
    then have "(of_char (digit_char d) :: nat) = of_char (CHR ''+'')" by simp
    with oc show False by simp
  qed
qed

lemma dec_digits: "dec n \<noteq> [] \<and> (\<forall>c\<in>set (dec n). isdigit c)"
proof (induction n rule: dec.induct)
  case (1 n)
  show ?case
  proof (cases "n < 10")
    case True
    then show ?thesis by (simp add: dec.simps [of n] digit_char_props)
  next
    case False
    with 1 have "\<forall>c\<in>set (dec (n div 10)). isdigit c" by simp
    moreover have "isdigit (digit_char (n mod 10))" by (simp add: digit_char_props)
    ultimately show ?thesis using False by (simp add: dec.simps [of n])
  qed
qed

lemma hd_dec_digit: "isdigit (hd (dec n))"
  using dec_digits [of n] by (cases "dec n") auto

lemma digits_val_snoc: "digits_val (ds @ [c]) = 10 * digits_val ds + digit_val c"
  by (simp add: digits_val_def)

lemma digits_val_dec: "digits_val (dec n) = n"
proof (induction n rule: dec.induct)
  case (1 n)
  show ?case
  proof (cases "n < 10")
    case True
    then show ?thesis by (simp add: dec.simps [of n] digits_val_def digit_char_props)
  next
    case False
    with 1 have "digits_val (dec (n div 10)) = n div 10" by simp
    then show ?thesis
      using False by (simp add: dec.simps [of n] digits_val_snoc digit_char_props)
  qed
qed

lemma isdigit_not_space: "isdigit c \<Longrightarrow> \<not> isspace c"
  by (auto simp: isdigit_iff isspace_iff)

lemma isdigit_not_sign: "isdigit c \<Longrightarrow> c \<noteq> CHR ''-'' \<and> c \<noteq> CHR ''+''"
  by (auto simp: isdigit_iff)

lemma minus_not_space: "\<not> isspace (CHR ''-'')"
  by (simp add: isspace_iff)

lemma takeWhile_dec: "takeWhile isdigit (dec n) = dec n"
  using dec_digits [of n] by (simp add: takeWhile_eq_all_conv)

lemma strtol_value_dec: "strtol_value (dec n) = int n"
proof -
  obtain c cs where d: "dec n = c # cs" using dec_digits [of n] by (cases "dec n") auto
  with dec_digits [of n] have c: "isdigit c" by auto
  have "dropWhile isspace (dec n) = dec n"
    using d c isdigit_not_space by simp
  moreover have "read_sign (dec n) = (False, dec n)"
    using d c isdigit_not_sign [of c] by (simp add: read_sign_def)
  ultimately show ?thesis
    by (simp add: strtol_value_def takeWhile_dec digits_val_dec)
qed

lemma strtol_value_minus_dec: "strtol_value (CHR ''-'' # dec n) = - int n"
  by (simp add: strtol_value_def minus_not_space read_sign_def takeWhile_dec digits_val_dec)

lemma strtol_value_format_d: "strtol_value (format_d i) = sint i"
  by (simp add: format_d_def strtol_value_dec strtol_value_minus_dec)

lemma atoi_format_d: "atoi (format_d i) = Some i"
proof -
  have "- (2 ^ 31) \<le> sint i" and "sint i < 2 ^ 31"
    using sint_range_size [of i] by (simp_all add: word_size)
  then show ?thesis by (simp add: atoi_def strtol_value_format_d)
qed

subsection \<open>The float \<open>2 ^ - 15\<close> and the text \<^verbatim>\<open>0.0000\<close>\<close>

lemma format_f4_small: "format_f4 0x38000000 = ''0.0000''"
proof -
  have f1: "float_sign 0x38000000 = False" by (simp add: float_sign_def)
  have f2: "float_expo 0x38000000 = 112" by (simp add: float_expo_def)
  have f3: "float_frac 0x38000000 = 0" by (simp add: float_frac_def)
  have s0: "scale_round 83886080000 (Suc 0) 38 = 0"
    by (simp add: scale_round_def rne_div_def)
  have d0: "dec 0 = ''0''" by code_simp
  have p0: "pad4 0 = ''0000''" by code_simp
  show ?thesis by (simp add: format_f4_def f1 f2 f3 s0 d0 p0)
qed

lemma atof_float_zero: "atof_float ''0.0000'' = 0"
proof -
  have sp: "strtod_parse ''0.0000'' = P_num False 0 10000" by code_simp
  have td: "to_double 0 10000 = Some (0, - 1074)"
    by (simp add: to_double_def round_binary_def)
  have tf: "to_float 0 (- 1074) = Some (0, - 149)" by (simp add: to_float_def)
  have ef: "encode_float False 0 (- 149) = 0" by (simp add: encode_float_def float_bits_def)
  show ?thesis by (simp add: atof_float_def sp td tf ef)
qed

subsection \<open>Auxiliary facts: the printed text is the text the spec words\<close>

lemma hd_dec_nonzero: "0 < n \<Longrightarrow> hd (dec n) \<noteq> CHR ''0''"
proof (induction n rule: dec.induct)
  case (1 n)
  show ?case
  proof (cases "n < 10")
    case True
    have "(of_char (digit_char n) :: nat) = 48 + n" using True by (rule of_char_digit_char)
    moreover have "(of_char (CHR ''0'') :: nat) = 48" by simp
    ultimately have "digit_char n \<noteq> CHR ''0''" using "1.prems" by force
    with True show ?thesis by (simp add: dec.simps [of n])
  next
    case False
    then have "0 < n div 10" by simp
    with 1 False have "hd (dec (n div 10)) \<noteq> CHR ''0''" by simp
    moreover have "dec (n div 10) \<noteq> []" using dec_digits by blast
    ultimately show ?thesis using False by (simp add: dec.simps [of n])
  qed
qed

lemma length_dec_one: "n < 10 \<Longrightarrow> length (dec n) = 1"
  by (simp add: dec.simps [of n])

lemma decimal_numeral_dec: "decimal_numeral (dec n) n"
proof -
  have "length (dec n) = 1 \<or> hd (dec n) \<noteq> CHR ''0''"
  proof (cases "n < 10")
    case True
    then show ?thesis by (simp add: length_dec_one)
  next
    case False
    then show ?thesis by (simp add: hd_dec_nonzero)
  qed
  with dec_digits [of n] show ?thesis
    by (simp add: decimal_numeral_def digits_val_dec list_all_iff)
qed

lemma signed_decimal_format_d: "signed_decimal (format_d i) (sint i)"
  by (simp add: signed_decimal_def format_d_def decimal_numeral_dec)

lemma length_dec_le: "0 < d \<Longrightarrow> n < 10 ^ d \<Longrightarrow> length (dec n) \<le> d"
proof (induction n arbitrary: d rule: dec.induct)
  case (1 n)
  show ?case
  proof (cases "n < 10")
    case True
    with "1.prems" show ?thesis by (simp add: length_dec_one)
  next
    case False
    from "1.prems" obtain d' where d: "d = Suc d'" by (cases d) auto
    with "1.prems" False have "0 < d'" by (cases d') auto
    moreover from "1.prems" d have "n div 10 < 10 ^ d'"
      by (simp add: less_mult_imp_div_less mult.commute)
    ultimately have "length (dec (n div 10)) \<le> d'" using 1 False by simp
    with d False show ?thesis by (simp add: dec.simps [of n])
  qed
qed

lemma digits_val_zeros: "digits_val (replicate k CHR ''0'' @ ds) = digits_val ds"
proof (induction k)
  case 0
  then show ?case by simp
next
  case (Suc k)
  have "digits_val (CHR ''0'' # xs) = digits_val xs" for xs
    by (simp add: digits_val_def digit_val_def)
  with Suc show ?case by simp
qed

lemma isdigit_zero: "isdigit CHR ''0''"
  by (simp add: isdigit_def)

lemma pad4_props:
  assumes "k < 10000"
  shows "length (pad4 k) = 4" and "list_all isdigit (pad4 k)" and "digits_val (pad4 k) = k"
proof -
  have "length (dec k) \<le> 4" using assms by (intro length_dec_le) simp_all
  then show "length (pad4 k) = 4" by (simp add: pad4_def)
  show "list_all isdigit (pad4 k)"
    using dec_digits [of k] by (auto simp: pad4_def list_all_iff isdigit_zero)
  show "digits_val (pad4 k) = k" by (simp add: pad4_def digits_val_zeros digits_val_dec)
qed

lemma fixed4_numeral_format: "fixed4_numeral (dec (N div 10000) @ ''.'' @ pad4 (N mod 10000)) N"
  unfolding fixed4_numeral_def
  by (intro exI [of _ "dec (N div 10000)"] exI [of _ "pad4 (N mod 10000)"])
    (simp add: decimal_numeral_dec pad4_props)

lemma rne_div_nearest:
  assumes "0 < b"
  shows "2 * \<bar>int (rne_div a b) * int b - int a\<bar> \<le> int b"
proof -
  define q where "q = a div b"
  define r where "r = a mod b"
  have a: "a = q * b + r" by (simp add: q_def r_def)
  have r: "r < b" using assms by (simp add: r_def)
  have res: "rne_div a b = q \<or> (rne_div a b = q + 1 \<and> b \<le> 2 * r)"
    by (auto simp: rne_div_def Let_def q_def r_def)
  have low: "rne_div a b = q \<Longrightarrow> 2 * r \<le> b"
    by (auto simp: rne_div_def Let_def q_def r_def split: if_splits)
  from res show ?thesis
  proof
    assume e: "rne_div a b = q"
    then have "int (rne_div a b) * int b - int a = - int r" using a by simp
    with low [OF e] show ?thesis by simp
  next
    assume e: "rne_div a b = q + 1 \<and> b \<le> 2 * r"
    then have "int (rne_div a b) * int b - int a = int b - int r"
      using a by (simp add: algebra_simps)
    with e r show ?thesis by simp
  qed
qed

lemma rne_div_one: "rne_div a (Suc 0) = a"
  by (simp add: rne_div_def)

lemma nearest_scaled_scale_round: "nearest_scaled (scale_round (m * 10000) 1 (- e)) m e"
proof (cases "e \<ge> 0")
  case True
  then show ?thesis
    by (cases "e = 0") (simp_all add: nearest_scaled_def scale_round_def rne_div_one)
next
  case False
  then have "scale_round (m * 10000) 1 (- e) = rne_div (m * 10000) (2 ^ nat (- e))"
    by (simp add: scale_round_def)
  moreover have "2 * \<bar>int (rne_div (m * 10000) (2 ^ nat (- e))) * int (2 ^ nat (- e))
      - int (m * 10000)\<bar> \<le> int (2 ^ nat (- e))"
    by (rule rne_div_nearest) simp
  ultimately show ?thesis using False by (simp add: nearest_scaled_def)
qed

lemma fixed4_text_format_f4: "fixed4_text (format_f4 f) f"
proof (cases "float_expo f = 255")
  case True
  then show ?thesis by (simp add: fixed4_text_def format_f4_def)
next
  case False
  let ?m = "if float_expo f = 0 then float_frac f else 2 ^ 23 + float_frac f"
  let ?e = "if float_expo f = 0 then - 149 else int (float_expo f) - 150"
  let ?N = "scale_round (?m * 10000) 1 (- ?e)"
  let ?sgn = "if float_sign f then ''-'' else []"
  have t: "format_f4 f = ?sgn @ (dec (?N div 10000) @ ''.'' @ pad4 (?N mod 10000))"
    using False by (simp add: format_f4_def Let_def)
  have "fixed4_numeral (dec (?N div 10000) @ ''.'' @ pad4 (?N mod 10000)) ?N"
    by (rule fixed4_numeral_format)
  moreover have "nearest_scaled ?N ?m ?e" by (rule nearest_scaled_scale_round)
  ultimately have "\<exists>N body. format_f4 f = ?sgn @ body \<and> fixed4_numeral body N
      \<and> nearest_scaled N ?m ?e"
    using t by blast
  with False show ?thesis by (simp add: fixed4_text_def Let_def)
qed

subsection \<open>Precedence of the dispatcher\<close>



subsection \<open>The last command\<close>

text \<open>
  Claim C2 says that \<^verbatim>\<open>lastCommand\<close> returns the line of the most recent call of
  \<^verbatim>\<open>execute\<close>. \<^verbatim>\<open>execute\<close> puts each line at the front of the history and
  \<^verbatim>\<open>lastCommand\<close> reads its back: after the lines \<^verbatim>\<open>a\<close> and \<^verbatim>\<open>b\<close> on the example console
  the history is \<^verbatim>\<open>b\<close>, \<^verbatim>\<open>a\<close>, and \<^verbatim>\<open>lastCommand\<close> returns \<^verbatim>\<open>a\<close>, the oldest line, while
  \<^verbatim>\<open>prevCommand(0)\<close> returns \<^verbatim>\<open>b\<close>.
\<close>

theorem lastCommand_returns_oldest:
  "\<exists>w1 w2. execute tokenize console_handlers ''a'' example_console = Some w1
     \<and> execute tokenize console_handlers ''b'' w1 = Some w2
     \<and> cmd_log w2 = [''b'', ''a'']
     \<and> lastCommand w2 = ''a''
     \<and> prevCommand w2 0 = ''b''"
proof -
  have a1: "''a'' \<noteq> []" by simp
  have a2: "getToken (tokenize ''a'') = (''a'', [])" by code_simp
  have a3: "find_command ''a'' (commands example_console) = None" by code_simp
  have a4: "get_cvar ''a'' (cvars example_console) = None" by code_simp
  have e: "cmd_log example_console = []" by code_simp
  from execute_unknown_path [where tz = tokenize and H = console_handlers, OF a1 a2 a3 a4]
  obtain w1 where w1: "execute tokenize console_handlers ''a'' example_console = Some w1"
    and l1: "cmd_log w1 = ''a'' # cmd_log example_console"
    and c1: "commands w1 = commands example_console"
    and v1: "cvars w1 = cvars example_console"
    by simp
  have b1: "''b'' \<noteq> []" by simp
  have b2: "getToken (tokenize ''b'') = (''b'', [])" by code_simp
  have "find_command ''b'' (commands example_console) = None" by code_simp
  with c1 have b3: "find_command ''b'' (commands w1) = None" by simp
  have "get_cvar ''b'' (cvars example_console) = None" by code_simp
  with v1 have b4: "get_cvar ''b'' (cvars w1) = None" by simp
  from execute_unknown_path [where tz = tokenize and H = console_handlers, OF b1 b2 b3 b4]
  obtain w2 where w2: "execute tokenize console_handlers ''b'' w1 = Some w2"
    and l2: "cmd_log w2 = ''b'' # cmd_log w1"
    by simp
  from l1 l2 e have l: "cmd_log w2 = [''b'', ''a'']" by simp
  then have "lastCommand w2 = ''a''" and "prevCommand w2 0 = ''b''"
    by (simp_all add: lastCommand_def prevCommand_def)
  with w1 w2 l show ?thesis by blast
qed

subsection \<open>Text of a value and back\<close>

text \<open>
  Claim C3 says that for each of the four types, setting a new variable of the same type
  and flags from the text of a value gives that value back. A float is printed with four
  decimals, so this fails for it: the float \<open>2 ^ - 15\<close> (bits \<^verbatim>\<open>0x38000000\<close>) is printed
  as \<^verbatim>\<open>0.0000\<close>, which is read back as 0.
\<close>

theorem float_roundtrip_counterexample:
  "formatToString \<lparr>cvar_name = ''x'', flags = 0, val = CFloatCVar 0x38000000\<rparr> = ''0.0000''
   \<and> setFromString \<lparr>cvar_name = ''x'', flags = 0, val = CFloatCVar 0x3F800000\<rparr>
        (formatToString \<lparr>cvar_name = ''x'', flags = 0, val = CFloatCVar 0x38000000\<rparr>)
      = Some \<lparr>cvar_name = ''x'', flags = 0, val = CFloatCVar 0\<rparr>
   \<and> setFromString \<lparr>cvar_name = ''x'', flags = 0, val = CFloatCVar 0x3F800000\<rparr>
        (formatToString \<lparr>cvar_name = ''x'', flags = 0, val = CFloatCVar 0x38000000\<rparr>)
      \<noteq> Some \<lparr>cvar_name = ''x'', flags = 0, val = CFloatCVar 0x38000000\<rparr>"
  by (simp add: formatToString_def setFromString_def format_f4_small atof_float_zero)

text \<open>
  Claim C3, amended. For a Boolean, an integer and a string variable, setting a new
  variable of the same name, type and flags from the text of the value gives the variable
  back, whatever value the new variable held.
\<close>

theorem roundtrip_bool_int_string:
  assumes "cvar_type v \<noteq> CVAR_FLOAT"
    and "cvar_type fresh = cvar_type v"
    and "cvar_name fresh = cvar_name v"
    and "flags fresh = flags v"
  shows "setFromString fresh (formatToString v) = Some v"
proof (cases "val v")
  case (CBoolCVar b)
  with assms(2) obtain b' where "val fresh = CBoolCVar b'"
    by (cases "val fresh") (simp_all add: cvar_type_def)
  with CBoolCVar assms(3,4) show ?thesis
    by (cases b) (simp_all add: setFromString_def formatToString_def)
next
  case (CIntCVar i)
  with assms(2) obtain i' where "val fresh = CIntCVar i'"
    by (cases "val fresh") (simp_all add: cvar_type_def)
  with CIntCVar assms(3,4) show ?thesis
    by (simp add: setFromString_def formatToString_def atoi_format_d)
next
  case (CFloatCVar f)
  with assms(1) show ?thesis by (simp add: cvar_type_def)
next
  case (CStringCVar s)
  with assms(2) obtain s' where "val fresh = CStringCVar s'"
    by (cases "val fresh") (simp_all add: cvar_type_def)
  with CStringCVar assms(3,4) show ?thesis
    by (simp add: setFromString_def formatToString_def)
qed

text \<open>The theorem for the integer \<open>- 42\<close>, set into a variable that held 7.\<close>

theorem roundtrip_bool_int_string_witness:
  "cvar_type \<lparr>cvar_name = ''n'', flags = 0, val = CIntCVar (- 42)\<rparr> \<noteq> CVAR_FLOAT
   \<and> cvar_type \<lparr>cvar_name = ''n'', flags = 0, val = CIntCVar 7\<rparr>
       = cvar_type \<lparr>cvar_name = ''n'', flags = 0, val = CIntCVar (- 42)\<rparr>
   \<and> formatToString \<lparr>cvar_name = ''n'', flags = 0, val = CIntCVar (- 42)\<rparr> = ''-42''
   \<and> setFromString \<lparr>cvar_name = ''n'', flags = 0, val = CIntCVar 7\<rparr>
        (formatToString \<lparr>cvar_name = ''n'', flags = 0, val = CIntCVar (- 42)\<rparr>)
      = Some \<lparr>cvar_name = ''n'', flags = 0, val = CIntCVar (- 42)\<rparr>"
proof -
  have h1: "cvar_type \<lparr>cvar_name = ''n'', flags = 0, val = CIntCVar (- 42)\<rparr> \<noteq> CVAR_FLOAT"
    by (simp add: cvar_type_def)
  have h2: "cvar_type \<lparr>cvar_name = ''n'', flags = 0, val = CIntCVar 7\<rparr>
       = cvar_type \<lparr>cvar_name = ''n'', flags = 0, val = CIntCVar (- 42)\<rparr>"
    by (simp add: cvar_type_def)
  have f: "formatToString \<lparr>cvar_name = ''n'', flags = 0, val = CIntCVar (- 42)\<rparr> = ''-42''"
    by code_simp
  from roundtrip_bool_int_string [OF h1 h2] h1 h2 f show ?thesis by simp
qed

subsection \<open>Order of the registry\<close>

text \<open>
  Claim C4. After any sequence of registrations on a new console, in any order, reading
  the registry by index from 0 up to the number of commands yields exactly the registered
  commands, each as often as it was registered, in ascending order of their names (names
  compared byte by byte): of two indices below the number of commands, the smaller one has
  the smaller or equal name. Every \<^verbatim>\<open>addCommand\<close> sorts the whole vector, so this holds
  after each registration.
\<close>

theorem registry_sorted_by_name:
  "numCommands (register_all cs (Console vs)) = length cs
   \<and> mset (map (command (register_all cs (Console vs)))
          [0..<numCommands (register_all cs (Console vs))]) = mset (map Some cs)
   \<and> (\<forall>i j. i \<le> j \<and> j < numCommands (register_all cs (Console vs)) \<longrightarrow>
         (\<exists>a b. command (register_all cs (Console vs)) i = Some a
            \<and> command (register_all cs (Console vs)) j = Some b
            \<and> name a \<le> name b))"
proof (intro conjI allI impI)
  let ?w = "register_all cs (Console vs)"
  let ?xs = "commands ?w"
  have perm: "mset (commands (register_all cs w)) = mset (commands w) + mset cs" for w
    by (induction cs arbitrary: w) (simp_all add: addCommand_def mset_std_sort)
  have ord: "sorted (map name (commands w))
      \<Longrightarrow> sorted (map name (commands (register_all cs w)))" for w
    by (induction cs arbitrary: w) (simp_all add: addCommand_def sorted_std_sort)
  have xs: "mset ?xs = mset cs" by (simp add: perm Console_def)
  then have "size (mset ?xs) = size (mset cs)" by simp
  then show len: "numCommands ?w = length cs" by (simp add: numCommands_def)
  have "map (command ?w) [0..<length ?xs] = map Some ?xs"
    by (rule nth_equalityI) (simp_all add: command_def)
  with xs show "mset (map (command ?w) [0..<numCommands ?w]) = mset (map Some cs)"
    by (simp add: numCommands_def)
  fix i j
  assume ij: "i \<le> j \<and> j < numCommands ?w"
  then have j: "j < length ?xs" and i: "i < length ?xs"
    by (simp_all add: numCommands_def)
  have "sorted (map name ?xs)" by (rule ord) (simp add: Console_def)
  with ij j have "map name ?xs ! i \<le> map name ?xs ! j"
    by (simp add: sorted_iff_nth_mono del: nth_map)
  with i j have "name (?xs ! i) \<le> name (?xs ! j)" by simp
  with i j show "\<exists>a b. command ?w i = Some a \<and> command ?w j = Some b \<and> name a \<le> name b"
    by (simp add: command_def)
qed

text \<open>
  The theorem for \<^verbatim>\<open>echo\<close> registered before \<^verbatim>\<open>cmdlist\<close>, as in the source file:
  the registry read by index is \<^verbatim>\<open>cmdlist\<close>, \<^verbatim>\<open>echo\<close>.
\<close>

theorem registry_sorted_by_name_witness:
  "map (command (register_all
         [\<lparr>name = ''echo'', commandFunc = 1, min_args = 1\<rparr>,
          \<lparr>name = ''cmdlist'', commandFunc = 2, min_args = 0\<rparr>] (Console [])))
       [0..<numCommands (register_all
         [\<lparr>name = ''echo'', commandFunc = 1, min_args = 1\<rparr>,
          \<lparr>name = ''cmdlist'', commandFunc = 2, min_args = 0\<rparr>] (Console []))]
     = [Some \<lparr>name = ''cmdlist'', commandFunc = 2, min_args = 0\<rparr>,
        Some \<lparr>name = ''echo'', commandFunc = 1, min_args = 1\<rparr>]
   \<and> numCommands (register_all
         [\<lparr>name = ''echo'', commandFunc = 1, min_args = 1\<rparr>,
          \<lparr>name = ''cmdlist'', commandFunc = 2, min_args = 0\<rparr>] (Console [])) = 2
   \<and> mset (map (command (register_all
         [\<lparr>name = ''echo'', commandFunc = 1, min_args = 1\<rparr>,
          \<lparr>name = ''cmdlist'', commandFunc = 2, min_args = 0\<rparr>] (Console [])))
       [0..<numCommands (register_all
         [\<lparr>name = ''echo'', commandFunc = 1, min_args = 1\<rparr>,
          \<lparr>name = ''cmdlist'', commandFunc = 2, min_args = 0\<rparr>] (Console []))])
     = mset (map Some
         [\<lparr>name = ''echo'', commandFunc = 1, min_args = 1\<rparr>,
          \<lparr>name = ''cmdlist'', commandFunc = 2, min_args = 0\<rparr>])
   \<and> (0::nat) \<le> 1
   \<and> 1 < numCommands (register_all
         [\<lparr>name = ''echo'', commandFunc = 1, min_args = 1\<rparr>,
          \<lparr>name = ''cmdlist'', commandFunc = 2, min_args = 0\<rparr>] (Console []))
   \<and> (\<exists>a b. command (register_all
         [\<lparr>name = ''echo'', commandFunc = 1, min_args = 1\<rparr>,
          \<lparr>name = ''cmdlist'', commandFunc = 2, min_args = 0\<rparr>] (Console [])) 0 = Some a
       \<and> command (register_all
         [\<lparr>name = ''echo'', commandFunc = 1, min_args = 1\<rparr>,
          \<lparr>name = ''cmdlist'', commandFunc = 2, min_args = 0\<rparr>] (Console [])) 1 = Some b
       \<and> name a \<le> name b)"
proof -
  let ?cs = "[\<lparr>name = ''echo'', commandFunc = 1, min_args = 1\<rparr>,
          \<lparr>name = ''cmdlist'', commandFunc = 2, min_args = 0\<rparr>]"
  let ?w = "register_all ?cs (Console [])"
  have e: "map (command ?w) [0..<numCommands ?w]
     = [Some \<lparr>name = ''cmdlist'', commandFunc = 2, min_args = 0\<rparr>,
        Some \<lparr>name = ''echo'', commandFunc = 1, min_args = 1\<rparr>]" by code_simp
  have h1: "(0::nat) \<le> 1" by simp
  have h2: "1 < numCommands ?w" by code_simp
  note t = registry_sorted_by_name [of ?cs "[]"]
  from t have n: "numCommands ?w = 2" by simp
  from t have m: "mset (map (command ?w) [0..<numCommands ?w]) = mset (map Some ?cs)"
    by blast
  from t h1 h2 have s: "\<exists>a b. command ?w 0 = Some a \<and> command ?w 1 = Some b \<and> name a \<le> name b"
    by blast
  from e n m h1 h2 s show ?thesis by blast
qed

subsection \<open>Missing arguments\<close>

text \<open>
  Claim C5. When the first token of a line that is not empty is the name of a registered
  command and the line has fewer arguments than the minimum of that command, the handler is
  not called: \<^verbatim>\<open>execute\<close> returns a state in which no handler has a part, the same state
  for every handler table, also for one whose handlers never return. The last line of
  the transcript is then \<^verbatim>\<open>Missing command arguments\<close>, ended by the newline that
  \<^verbatim>\<open>logMessage\<close> gives every line.
\<close>

theorem execute_missing_arguments:
  assumes "cmdline \<noteq> []"
    and "getToken (tz cmdline) = (cmd_name, ts)"
    and "find_command cmd_name (commands w) = Some c"
    and "length (get_args ts) < min_args c"
  shows "\<exists>w'. execute tz H cmdline w = Some w'
     \<and> execute tz (\<lambda>f args w. None) cmdline w = Some w'
     \<and> lastLogLine w' = ''Missing command arguments'' @ [CHR 0x0A]
     \<and> w' = w\<lparr>wx_log := wx_log w @ [''> '' @ cmdline],
               cmd_log := cmdline # cmd_log w,
               announced := announced w @ [''console_execute'', ''console_logmessage''],
               log := log w @ [''Missing command arguments'' @ [CHR 0x0A]]\<rparr>"
  using assms(3,4)
  by (simp add: execute_nonempty [where tz = tz, OF assms(1,2)] ConsoleCommand_execute_def
      logMessage_line lastLogLine_def)

text \<open>
  The theorem at the line \<^verbatim>\<open>echo\<close> on the example console, where \<^verbatim>\<open>echo\<close> needs one
  argument.
\<close>

theorem execute_missing_arguments_witness:
  "''echo'' \<noteq> []
   \<and> getToken (tokenize ''echo'') = (''echo'', [])
   \<and> find_command ''echo'' (commands example_console)
       = Some \<lparr>name = ''echo'', commandFunc = 1, min_args = 1\<rparr>
   \<and> length (get_args []) < min_args \<lparr>name = ''echo'', commandFunc = 1, min_args = 1\<rparr>
   \<and> (\<exists>w'. execute tokenize console_handlers ''echo'' example_console = Some w'
        \<and> execute tokenize (\<lambda>f args w. None) ''echo'' example_console = Some w'
        \<and> lastLogLine w' = ''Missing command arguments'' @ [CHR 0x0A]
        \<and> w' = example_console\<lparr>wx_log := wx_log example_console @ [''> '' @ ''echo''],
               cmd_log := ''echo'' # cmd_log example_console,
               announced := announced example_console @ [''console_execute'', ''console_logmessage''],
               log := log example_console @ [''Missing command arguments'' @ [CHR 0x0A]]\<rparr>)"
proof -
  have h1: "''echo'' \<noteq> []" by simp
  have h2: "getToken (tokenize ''echo'') = (''echo'', [])" by code_simp
  have h3: "find_command ''echo'' (commands example_console)
       = Some \<lparr>name = ''echo'', commandFunc = 1, min_args = 1\<rparr>" by code_simp
  have h4: "length (get_args []) < min_args \<lparr>name = ''echo'', commandFunc = 1, min_args = 1\<rparr>"
    by simp
  show ?thesis
    using execute_missing_arguments [where tz = tokenize and H = console_handlers, OF h1 h2 h3 h4]
      h1 h2 h3 h4
    by blast
qed

subsection \<open>The empty line\<close>

text \<open>
  Claim C6. \<^verbatim>\<open>execute("")\<close> returns and leaves the transcript, the command history and the
  notifications as they were: no line is logged, nothing is put in the history, neither
  \<^verbatim>\<open>console_execute\<close> nor \<^verbatim>\<open>console_logmessage\<close> is announced. The variables and the
  registry stay as they were, too; only \<^verbatim>\<open>wxLogMessage\<close> receives the line \<^verbatim>\<open>"> "\<close>.
\<close>

theorem execute_empty_line:
  "\<exists>w'. execute tz H [] w = Some w' \<and> log w' = log w \<and> cmd_log w' = cmd_log w
     \<and> announced w' = announced w \<and> cvars w' = cvars w \<and> commands w' = commands w"
  by (simp add: execute_def)

subsection \<open>Assignment to a Boolean variable\<close>

text \<open>
  Claim C7. When the first token of a line names no command but a Boolean variable and an
  argument follows, the first argument decides the new value: exactly the texts \<^verbatim>\<open>0\<close> and
  \<^verbatim>\<open>false\<close> make it false, every other text makes it true. The line logged afterwards
  shows the new value as \<^verbatim>\<open>true\<close> or \<^verbatim>\<open>false\<close>: it is \<^verbatim>\<open>"<name>" = "true"\<close> or
  \<^verbatim>\<open>"<name>" = "false"\<close>, ended by a newline.
\<close>

theorem execute_boolean_assignment:
  assumes "cmdline \<noteq> []"
    and "getToken (tz cmdline) = (cmd_name, ts)"
    and "cmd_name \<notin> set (map name (commands w))"
    and "get_cvar cmd_name (cvars w) = Some p"
    and "val (cvars w ! p) = CBoolCVar b"
    and "get_args ts = arg # rest"
  shows \<open>\<exists>w'. execute tz H cmdline w = Some w'
     \<and> get_cvar cmd_name (cvars w') = Some p
     \<and> val (cvars w' ! p) = CBoolCVar (arg \<noteq> ''0'' \<and> arg \<noteq> ''false'')
     \<and> log w' = log w @
          [''"'' @ cmd_name @ ''" = "''
             @ (if arg = ''0'' \<or> arg = ''false'' then ''false'' else ''true'')
             @ ''"'' @ [CHR 0x0A]]
     \<and> w' = w\<lparr>wx_log := wx_log w @ [''> '' @ cmdline],
               cmd_log := cmdline # cmd_log w,
               announced := announced w @ [''console_execute'', ''console_logmessage''],
               cvars := (cvars w)
                 [p := (cvars w ! p)\<lparr>val := CBoolCVar (arg \<noteq> ''0'' \<and> arg \<noteq> ''false'')\<rparr>],
               log := log w @
                 [''"'' @ cmd_name @ ''" = "''
                    @ (if arg = ''0'' \<or> arg = ''false'' then ''false'' else ''true'')
                    @ ''"'' @ [CHR 0x0A]]\<rparr>\<close>
proof -
  let ?v = "(cvars w ! p)\<lparr>val := CBoolCVar (arg \<noteq> ''0'' \<and> arg \<noteq> ''false'')\<rparr>"
  have none: "find_command cmd_name (commands w) = None"
    using assms(3) by (auto simp: find_command_None)
  have set: "(if get_args ts = [] then Some (cvars w ! p)
      else setFromString (cvars w ! p) (hd (get_args ts))) = Some ?v"
    using assms(5,6) by (simp add: setFromString_def)
  have fmt: "formatToString ?v = (if arg = ''0'' \<or> arg = ''false'' then ''false'' else ''true'')"
    by (simp add: formatToString_def)
  from get_cvar_Some [OF assms(4)] have p: "p < length (cvars w)"
    and n: "cvar_name (cvars w ! p) = cmd_name" by simp_all
  from n have "cvar_name ?v = cmd_name" by simp
  with assms(4) have look: "get_cvar cmd_name ((cvars w)[p := ?v]) = Some p"
    by (rule get_cvar_update)
  from p have at: "val ((cvars w)[p := ?v] ! p) = CBoolCVar (arg \<noteq> ''0'' \<and> arg \<noteq> ''false'')"
    by simp
  show ?thesis
    using look at
    by (simp add: execute_variable_path [where tz = tz, OF assms(1,2) none assms(4) set] fmt)
qed

text \<open>
  The theorem at the line \<^verbatim>\<open>v 1\<close> on the example console, whose variable \<^verbatim>\<open>v\<close> is
  false before.
\<close>

theorem execute_boolean_assignment_witness:
  \<open>''v 1'' \<noteq> []
   \<and> getToken (tokenize ''v 1'') = (''v'', [''1''])
   \<and> ''v'' \<notin> set (map name (commands example_console))
   \<and> get_cvar ''v'' (cvars example_console) = Some 0
   \<and> val (cvars example_console ! 0) = CBoolCVar False
   \<and> get_args [''1''] = ''1'' # []
   \<and> (\<exists>w'. execute tokenize console_handlers ''v 1'' example_console = Some w'
        \<and> get_cvar ''v'' (cvars w') = Some 0
        \<and> val (cvars w' ! 0) = CBoolCVar True
        \<and> log w' = log example_console @ [''"v" = "true"'' @ [CHR 0x0A]])\<close>
proof -
  have h1: "''v 1'' \<noteq> []" by simp
  have h2: "getToken (tokenize ''v 1'') = (''v'', [''1''])" by code_simp
  have h3: "''v'' \<notin> set (map name (commands example_console))" by code_simp
  have h4: "get_cvar ''v'' (cvars example_console) = Some 0" by code_simp
  have h5: "val (cvars example_console ! 0) = CBoolCVar False" by code_simp
  have h6: "get_args [''1''] = ''1'' # []" by simp
  from execute_boolean_assignment
      [where tz = tokenize and H = console_handlers, OF h1 h2 h3 h4 h5 h6]
  obtain w' where "execute tokenize console_handlers ''v 1'' example_console = Some w'"
    and "get_cvar ''v'' (cvars w') = Some 0"
    and "val (cvars w' ! 0) = CBoolCVar True"
    and \<open>log w' = log example_console @ [''"v" = "true"'' @ [CHR 0x0A]]\<close>
    by auto
  with h1 h2 h3 h4 h5 h6 show ?thesis by blast
qed

subsection \<open>Reading a variable\<close>

text \<open>
  Claim C8. When the first token of a line names no command but a variable and no argument
  follows, \<^verbatim>\<open>execute\<close> adds the line \<^verbatim>\<open>"<name>" = "<value>"\<close> to the transcript and leaves
  the variable store as it was. The value in the line is the current value of the
  variable, shown according to its type: \<^verbatim>\<open>true\<close> or \<^verbatim>\<open>false\<close> for a Boolean, the signed
  decimal digits for an Integer, the number rounded to four decimals for a Float, the
  string itself for a String.
\<close>

theorem execute_variable_read:
  assumes "cmdline \<noteq> []"
    and "getToken (tz cmdline) = (cmd_name, ts)"
    and "cmd_name \<notin> set (map name (commands w))"
    and "get_cvar cmd_name (cvars w) = Some p"
    and "get_args ts = []"
  shows \<open>\<exists>w' t. execute tz H cmdline w = Some w'
     \<and> cvars w' = cvars w
     \<and> cvar_name (cvars w ! p) = cmd_name
     \<and> log w' = log w @ [''"'' @ cmd_name @ ''" = "'' @ t @ ''"'' @ [CHR 0x0A]]
     \<and> (case val (cvars w ! p) of
          CBoolCVar b \<Rightarrow> t = (if b then ''true'' else ''false'')
        | CIntCVar i \<Rightarrow> signed_decimal t (sint i)
        | CFloatCVar f \<Rightarrow> fixed4_text t f
        | CStringCVar s \<Rightarrow> t = s)
     \<and> w' = w\<lparr>wx_log := wx_log w @ [''> '' @ cmdline],
               cmd_log := cmdline # cmd_log w,
               announced := announced w @ [''console_execute'', ''console_logmessage''],
               log := log w @ [''"'' @ cmd_name @ ''" = "'' @ t @ ''"'' @ [CHR 0x0A]]\<rparr>\<close>
proof -
  have none: "find_command cmd_name (commands w) = None"
    using assms(3) by (auto simp: find_command_None)
  have same: "(if get_args ts = [] then Some (cvars w ! p)
      else setFromString (cvars w ! p) (hd (get_args ts))) = Some (cvars w ! p)"
    using assms(5) by simp
  from get_cvar_Some [OF assms(4)] have n: "cvar_name (cvars w ! p) = cmd_name" by simp
  note run = execute_variable_path [where tz = tz, OF assms(1,2) none assms(4) same]
  let ?t = "formatToString (cvars w ! p)"
  let ?w' = \<open>w\<lparr>wx_log := wx_log w @ [''> '' @ cmdline],
               cmd_log := cmdline # cmd_log w,
               announced := announced w @ [''console_execute'', ''console_logmessage''],
               log := log w @ [''"'' @ cmd_name @ ''" = "'' @ ?t @ ''"'' @ [CHR 0x0A]]\<rparr>\<close>
  from run have "execute tz H cmdline w = Some ?w'" by simp
  moreover have "case val (cvars w ! p) of
      CBoolCVar b \<Rightarrow> ?t = (if b then ''true'' else ''false'')
    | CIntCVar i \<Rightarrow> signed_decimal ?t (sint i)
    | CFloatCVar f \<Rightarrow> fixed4_text ?t f
    | CStringCVar s \<Rightarrow> ?t = s"
    by (cases "val (cvars w ! p)")
      (simp_all add: formatToString_def signed_decimal_format_d fixed4_text_format_f4)
  ultimately show ?thesis
    using n by (intro exI [of _ ?w'] exI [of _ ?t]) simp
qed

text \<open>
  The theorem at the lines \<^verbatim>\<open>n\<close> and \<^verbatim>\<open>v\<close> on the example console, whose variable \<^verbatim>\<open>n\<close> is
  the integer 3 and whose variable \<^verbatim>\<open>v\<close> is false, and the lines these runs log.
\<close>

theorem execute_variable_read_witness:
  \<open>''n'' \<noteq> []
   \<and> getToken (tokenize ''n'') = (''n'', [])
   \<and> ''n'' \<notin> set (map name (commands example_console))
   \<and> get_cvar ''n'' (cvars example_console) = Some 1
   \<and> get_args [] = []
   \<and> val (cvars example_console ! 1) = CIntCVar 3
   \<and> execute tokenize console_handlers ''n'' example_console =
       Some (example_console\<lparr>wx_log := [''> n''], cmd_log := [''n''],
               announced := [''console_execute'', ''console_logmessage''],
               log := [''"n" = "3"'' @ [CHR 0x0A]]\<rparr>)
   \<and> (\<exists>w' t. execute tokenize console_handlers ''n'' example_console = Some w'
        \<and> cvars w' = cvars example_console
        \<and> log w' = log example_console @ [''"'' @ ''n'' @ ''" = "'' @ t @ ''"'' @ [CHR 0x0A]]
        \<and> signed_decimal t 3)
   \<and> execute tokenize console_handlers ''v'' example_console =
       Some (example_console\<lparr>wx_log := [''> v''], cmd_log := [''v''],
               announced := [''console_execute'', ''console_logmessage''],
               log := [''"v" = "false"'' @ [CHR 0x0A]]\<rparr>)
   \<and> (\<exists>w'. execute tokenize console_handlers ''v'' example_console = Some w'
        \<and> cvars w' = cvars example_console
        \<and> log w' = log example_console
             @ [''"'' @ ''v'' @ ''" = "'' @ ''false'' @ ''"'' @ [CHR 0x0A]])\<close>
proof -
  have h1: "''n'' \<noteq> []" by simp
  have h2: "getToken (tokenize ''n'') = (''n'', [])" by code_simp
  have h3: "''n'' \<notin> set (map name (commands example_console))" by code_simp
  have h4: "get_cvar ''n'' (cvars example_console) = Some 1" by code_simp
  have h5: "get_args [] = []" by simp
  have n: "val (cvars example_console ! 1) = CIntCVar 3" by code_simp
  have en: \<open>execute tokenize console_handlers ''n'' example_console =
       Some (example_console\<lparr>wx_log := [''> n''], cmd_log := [''n''],
               announced := [''console_execute'', ''console_logmessage''],
               log := [''"n" = "3"'' @ [CHR 0x0A]]\<rparr>)\<close> by code_simp
  from execute_variable_read
      [where tz = tokenize and H = console_handlers, OF h1 h2 h3 h4 h5]
  obtain w' t where "execute tokenize console_handlers ''n'' example_console = Some w'"
    and "cvars w' = cvars example_console"
    and \<open>log w' = log example_console @ [''"'' @ ''n'' @ ''" = "'' @ t @ ''"'' @ [CHR 0x0A]]\<close>
    and "case val (cvars example_console ! 1) of
          CBoolCVar b \<Rightarrow> t = (if b then ''true'' else ''false'')
        | CIntCVar i \<Rightarrow> signed_decimal t (sint i)
        | CFloatCVar f \<Rightarrow> fixed4_text t f
        | CStringCVar s \<Rightarrow> t = s"
    by blast
  then have N: \<open>\<exists>w' t. execute tokenize console_handlers ''n'' example_console = Some w'
        \<and> cvars w' = cvars example_console
        \<and> log w' = log example_console @ [''"'' @ ''n'' @ ''" = "'' @ t @ ''"'' @ [CHR 0x0A]]
        \<and> signed_decimal t 3\<close>
    using n by auto
  have g1: "''v'' \<noteq> []" by simp
  have g2: "getToken (tokenize ''v'') = (''v'', [])" by code_simp
  have g3: "''v'' \<notin> set (map name (commands example_console))" by code_simp
  have g4: "get_cvar ''v'' (cvars example_console) = Some 0" by code_simp
  have v: "val (cvars example_console ! 0) = CBoolCVar False" by code_simp
  have ev: \<open>execute tokenize console_handlers ''v'' example_console =
       Some (example_console\<lparr>wx_log := [''> v''], cmd_log := [''v''],
               announced := [''console_execute'', ''console_logmessage''],
               log := [''"v" = "false"'' @ [CHR 0x0A]]\<rparr>)\<close> by code_simp
  from execute_variable_read
      [where tz = tokenize and H = console_handlers, OF g1 g2 g3 g4 h5]
  obtain u s where "execute tokenize console_handlers ''v'' example_console = Some u"
    and "cvars u = cvars example_console"
    and \<open>log u = log example_console @ [''"'' @ ''v'' @ ''" = "'' @ s @ ''"'' @ [CHR 0x0A]]\<close>
    and "case val (cvars example_console ! 0) of
          CBoolCVar b \<Rightarrow> s = (if b then ''true'' else ''false'')
        | CIntCVar i \<Rightarrow> signed_decimal s (sint i)
        | CFloatCVar f \<Rightarrow> fixed4_text s f
        | CStringCVar r \<Rightarrow> s = r"
    by blast
  then have V: \<open>\<exists>w'. execute tokenize console_handlers ''v'' example_console = Some w'
        \<and> cvars w' = cvars example_console
        \<and> log w' = log example_console
             @ [''"'' @ ''v'' @ ''" = "'' @ ''false'' @ ''"'' @ [CHR 0x0A]]\<close>
    using v by auto
  from h1 h2 h3 h4 h5 n en N ev V show ?thesis by blast
qed

subsection \<open>Unknown commands\<close>

text \<open>
  Claim C9. For a line that is not empty and whose first token is neither the name of a
  registered command nor the name of a variable, \<^verbatim>\<open>execute\<close> returns, and the one line it
  adds to the transcript is \<^verbatim>\<open>Unknown command: "<first token>"\<close>, ended by the newline
  that \<^verbatim>\<open>logMessage\<close> gives every line. The line is also put in the history, and
  \<^verbatim>\<open>console_execute\<close> and \<^verbatim>\<open>console_logmessage\<close> are announced.
\<close>

theorem execute_unknown_command:
  assumes "cmdline \<noteq> []"
    and "getToken (tz cmdline) = (cmd_name, ts)"
    and "cmd_name \<notin> set (map name (commands w))"
    and "cmd_name \<notin> set (map cvar_name (cvars w))"
  shows \<open>execute tz H cmdline w =
    Some (w\<lparr>wx_log := wx_log w @ [''> '' @ cmdline],
            cmd_log := cmdline # cmd_log w,
            announced := announced w @ [''console_execute'', ''console_logmessage''],
            log := log w @ [''Unknown command: "'' @ cmd_name @ ''"'' @ [CHR 0x0A]]\<rparr>)\<close>
proof -
  have "find_command cmd_name (commands w) = None"
    using assms(3) by (auto simp: find_command_None)
  moreover have "get_cvar cmd_name (cvars w) = None"
    using assms(4) by (auto simp: get_cvar_None)
  ultimately show ?thesis
    using unknown_line_last [of cmd_name]
    by (simp add: execute_nonempty [where tz = tz, OF assms(1,2)] logMessage_line) (simp add: unknown_line_def)
qed

text \<open>The theorem at the line \<^verbatim>\<open>boguscmd\<close> on the example console.\<close>

theorem execute_unknown_command_witness:
  \<open>''boguscmd'' \<noteq> []
   \<and> getToken (tokenize ''boguscmd'') = (''boguscmd'', [])
   \<and> ''boguscmd'' \<notin> set (map name (commands example_console))
   \<and> ''boguscmd'' \<notin> set (map cvar_name (cvars example_console))
   \<and> execute tokenize console_handlers ''boguscmd'' example_console =
    Some (example_console\<lparr>wx_log := [''> boguscmd''],
            cmd_log := [''boguscmd''],
            announced := [''console_execute'', ''console_logmessage''],
            log := [''Unknown command: "boguscmd"'' @ [CHR 0x0A]]\<rparr>)\<close>
proof -
  have h1: "''boguscmd'' \<noteq> []" by simp
  have h2: "getToken (tokenize ''boguscmd'') = (''boguscmd'', [])" by code_simp
  have h3: "''boguscmd'' \<notin> set (map name (commands example_console))" by code_simp
  have h4: "''boguscmd'' \<notin> set (map cvar_name (cvars example_console))" by code_simp
  have e: "wx_log example_console = [] \<and> cmd_log example_console = []
     \<and> announced example_console = [] \<and> log example_console = []" by code_simp
  show ?thesis
    using execute_unknown_command [where tz = tokenize and H = console_handlers, OF h1 h2 h3 h4] h2 h3 h4 e by simp
qed

subsection \<open>Reading a command by index\<close>

text \<open>
  Claim C10. Once at least one command is registered, \<^verbatim>\<open>command(index)\<close> yields a command
  for every index. For an index that is not below the number of commands it is the
  command at index 0, which is a registered command whose name is the least.
\<close>

theorem command_out_of_range:
  assumes "cs \<noteq> []"
  shows "\<exists>c. command (register_all cs (Console vs)) index = Some c
     \<and> (numCommands (register_all cs (Console vs)) \<le> index \<longrightarrow>
          command (register_all cs (Console vs)) 0 = Some c
          \<and> c \<in> set cs \<and> (\<forall>d\<in>set cs. name c \<le> name d))"
proof -
  let ?xs = "commands (register_all cs (Console vs))"
  have len: "length ?xs = length cs" by (simp add: length_register_all Console_def)
  have elems: "set ?xs = set cs" by (simp add: set_register_all Console_def)
  from assms len obtain x xs where xs: "?xs = x # xs" by (cases ?xs) auto
  have "sorted (map name ?xs)" by (rule sorted_registry)
  with xs have least: "\<forall>d\<in>set ?xs. name x \<le> name d" by auto
  from xs have x: "x \<in> set ?xs" by simp
  show ?thesis
  proof (cases "index < length ?xs")
    case True
    then show ?thesis by (simp add: command_def numCommands_def)
  next
    case False
    with xs have "command (register_all cs (Console vs)) index = Some x"
      and "command (register_all cs (Console vs)) 0 = Some x"
      by (simp_all add: command_def)
    with x least elems show ?thesis by auto
  qed
qed

text \<open>
  The theorem for \<^verbatim>\<open>echo\<close> registered before \<^verbatim>\<open>cmdlist\<close>: index 7 yields \<^verbatim>\<open>cmdlist\<close>.
\<close>

theorem command_out_of_range_witness:
  "[\<lparr>name = ''echo'', commandFunc = 1, min_args = 1\<rparr>,
    \<lparr>name = ''cmdlist'', commandFunc = 2, min_args = 0\<rparr>] \<noteq> []
   \<and> numCommands (register_all
         [\<lparr>name = ''echo'', commandFunc = 1, min_args = 1\<rparr>,
          \<lparr>name = ''cmdlist'', commandFunc = 2, min_args = 0\<rparr>] (Console [])) \<le> 7
   \<and> (\<exists>c. command (register_all
         [\<lparr>name = ''echo'', commandFunc = 1, min_args = 1\<rparr>,
          \<lparr>name = ''cmdlist'', commandFunc = 2, min_args = 0\<rparr>] (Console [])) 7 = Some c
        \<and> command (register_all
         [\<lparr>name = ''echo'', commandFunc = 1, min_args = 1\<rparr>,
          \<lparr>name = ''cmdlist'', commandFunc = 2, min_args = 0\<rparr>] (Console [])) 0 = Some c
        \<and> name c \<le> ''cmdlist'' \<and> name c \<le> ''echo'')"
proof -
  have h1: "[\<lparr>name = ''echo'', commandFunc = 1, min_args = 1\<rparr>,
    \<lparr>name = ''cmdlist'', commandFunc = 2, min_args = 0\<rparr>] \<noteq> []" by simp
  have h2: "numCommands (register_all
         [\<lparr>name = ''echo'', commandFunc = 1, min_args = 1\<rparr>,
          \<lparr>name = ''cmdlist'', commandFunc = 2, min_args = 0\<rparr>] (Console [])) \<le> 7"
    by code_simp
  from command_out_of_range [OF h1, of "[]" 7] h1 h2 show ?thesis by fastforce
qed

end
